theory Spec2Isabelle
  imports Complex_Main
begin

section \<open>JavaScript numbers, Math and Date\<close>

text \<open>
  The repository is plain JavaScript. A JavaScript number is modelled as an exact
  \<^typ>\<open>real\<close>: every finite double is a real, the comparisons \<open><\<close>, \<open>>=\<close>, \<open>>\<close> of
  finite doubles are the order of the reals, and \<open>Math.sin\<close>, \<open>Math.cos\<close>, \<open>Math.asin\<close>,
  \<open>Math.atan2\<close>, \<open>Math.PI\<close> are the real functions they approximate. Rounding, overflow,
  \<open>NaN\<close> and the infinities are outside this model.

  Several revisions of the same module are part of the sources. A definition without a
  suffix embeds the revision in \<open>src/astronomy.js\<close> or \<open>src/rendering.js\<close>; the suffixes
  \<open>_p000\<close>, \<open>_p002\<close> and \<open>_p003\<close> name the revision in the unnamed part with that number.
\<close>

text \<open>The remainder operator \<open>a % b\<close>: the quotient is truncated towards zero, so the
  result has the sign of the dividend.\<close>

definition js_rem :: "real \<Rightarrow> real \<Rightarrow> real" where
  "js_rem a b = a - b * of_int (if 0 \<le> a / b then \<lfloor>a / b\<rfloor> else \<lceil>a / b\<rceil>)"

text \<open>\<open>function mod360(d) { return ((d % 360) + 360) % 360; }\<close>\<close>

definition mod360 :: "real \<Rightarrow> real" where
  "mod360 d = js_rem (js_rem d 360 + 360) 360"

definition toRad :: "real \<Rightarrow> real" where
  "toRad d = d * pi / 180"

definition toDeg :: "real \<Rightarrow> real" where
  "toDeg r = r * 180 / pi"

text \<open>\<open>Math.atan2(y, x)\<close>, the angle of the point \<open>(x, y)\<close> in \<open>(-\<pi>, \<pi>]\<close>.\<close>

definition atan2 :: "real \<Rightarrow> real \<Rightarrow> real" where
  "atan2 y x =
     (if 0 < x then arctan (y / x)
      else if x < 0 then (if 0 \<le> y then arctan (y / x) + pi else arctan (y / x) - pi)
      else if 0 < y then pi / 2
      else if y < 0 then - (pi / 2)
      else 0)"

text \<open>
  A \<open>Date\<close> holds a time value, the milliseconds since 1970-01-01T00:00Z (valid dates
  only). Its accessors are built into the language (ECMA-262, Date objects); the
  calendar fields are computed from the day number with the usual era arithmetic of the
  proleptic Gregorian calendar.
\<close>

type_synonym date = int

definition getTime :: "date \<Rightarrow> int" where
  "getTime t = t"


definition days_from_civil :: "int \<Rightarrow> int \<Rightarrow> int \<Rightarrow> int" where
  "days_from_civil y0 m d =
     (let y = (if m \<le> 2 then y0 - 1 else y0);
          era = y div 400;
          yoe = y - era * 400;
          doy = (153 * (if 2 < m then m - 3 else m + 9) + 2) div 5 + d - 1;
          doe = yoe * 365 + yoe div 4 - yoe div 100 + doy
      in era * 146097 + doe - 719468)"





text \<open>\<open>Date.UTC(year, monthIndex, day, hours, minutes, seconds)\<close> for fields in range.\<close>

definition Date_UTC :: "int \<Rightarrow> int \<Rightarrow> int \<Rightarrow> int \<Rightarrow> int \<Rightarrow> int \<Rightarrow> int" where
  "Date_UTC y mi d h mn s =
     (((days_from_civil y (mi + 1) d * 24 + h) * 60 + mn) * 60 + s) * 1000"


section \<open>Zodiac constellation detection\<close>

record zodiac_bound =
  zid :: string
  zfrom :: real
  zto :: real

text \<open>\<open>ZODIAC_BOUNDARIES\<close> of \<open>src/astronomy.js\<close>.\<close>

definition ZODIAC_BOUNDARIES :: "zodiac_bound list" where
  "ZODIAC_BOUNDARIES =
    [\<lparr>zid = ''Cap'', zfrom = 300.0, zto = 327.0\<rparr>,
     \<lparr>zid = ''Aqr'', zfrom = 327.0, zto = 351.6\<rparr>,
     \<lparr>zid = ''Psc'', zfrom = 351.6, zto = 360.0\<rparr>,
     \<lparr>zid = ''Psc'', zfrom = 0.0, zto = 29.0\<rparr>,
     \<lparr>zid = ''Ari'', zfrom = 29.0, zto = 53.5\<rparr>,
     \<lparr>zid = ''Tau'', zfrom = 53.5, zto = 90.4\<rparr>,
     \<lparr>zid = ''Gem'', zfrom = 90.4, zto = 118.1\<rparr>,
     \<lparr>zid = ''Cnc'', zfrom = 118.1, zto = 138.1\<rparr>,
     \<lparr>zid = ''Leo'', zfrom = 138.1, zto = 174.1\<rparr>,
     \<lparr>zid = ''Vir'', zfrom = 174.1, zto = 217.8\<rparr>,
     \<lparr>zid = ''Lib'', zfrom = 217.8, zto = 241.0\<rparr>,
     \<lparr>zid = ''Sco'', zfrom = 241.0, zto = 247.7\<rparr>,
     \<lparr>zid = ''Oph'', zfrom = 247.7, zto = 266.3\<rparr>,
     \<lparr>zid = ''Sgr'', zfrom = 266.3, zto = 300.0\<rparr>]"

text \<open>\<open>ZODIAC_BOUNDS\<close> of the later revisions (parts 002 and 003): the same intervals,
  with the entry of Sagittarius moved to the front.\<close>

definition ZODIAC_BOUNDS :: "zodiac_bound list" where
  "ZODIAC_BOUNDS =
    [\<lparr>zid = ''Sgr'', zfrom = 266.3, zto = 300.0\<rparr>,
     \<lparr>zid = ''Cap'', zfrom = 300.0, zto = 327.0\<rparr>,
     \<lparr>zid = ''Aqr'', zfrom = 327.0, zto = 351.6\<rparr>,
     \<lparr>zid = ''Psc'', zfrom = 351.6, zto = 360.0\<rparr>,
     \<lparr>zid = ''Psc'', zfrom = 0.0, zto = 29.0\<rparr>,
     \<lparr>zid = ''Ari'', zfrom = 29.0, zto = 53.5\<rparr>,
     \<lparr>zid = ''Tau'', zfrom = 53.5, zto = 90.4\<rparr>,
     \<lparr>zid = ''Gem'', zfrom = 90.4, zto = 118.1\<rparr>,
     \<lparr>zid = ''Cnc'', zfrom = 118.1, zto = 138.1\<rparr>,
     \<lparr>zid = ''Leo'', zfrom = 138.1, zto = 174.1\<rparr>,
     \<lparr>zid = ''Vir'', zfrom = 174.1, zto = 217.8\<rparr>,
     \<lparr>zid = ''Lib'', zfrom = 217.8, zto = 241.0\<rparr>,
     \<lparr>zid = ''Sco'', zfrom = 241.0, zto = 247.7\<rparr>,
     \<lparr>zid = ''Oph'', zfrom = 247.7, zto = 266.3\<rparr>]"

text \<open>The test of the loop body, \<open>eclipticLon >= z.from && eclipticLon < z.to\<close>.\<close>

definition in_bound :: "real \<Rightarrow> zodiac_bound \<Rightarrow> bool" where
  "in_bound eclipticLon z = (eclipticLon \<ge> zfrom z \<and> eclipticLon < zto z)"

text \<open>
  \<open>for (const z of TABLE) { if (...) return z.id; }  return "Sgr";\<close>
  The loop is the same in every revision; only the table it runs over differs.
\<close>

fun zodiac_loop :: "zodiac_bound list \<Rightarrow> real \<Rightarrow> string" where
  "zodiac_loop [] eclipticLon = ''Sgr''"
| "zodiac_loop (z # zs) eclipticLon =
     (if in_bound eclipticLon z then zid z else zodiac_loop zs eclipticLon)"

definition getZodiacConstellation :: "real \<Rightarrow> string" where
  "getZodiacConstellation eclipticLon = zodiac_loop ZODIAC_BOUNDARIES eclipticLon"

definition getZodiacConstellation_p003 :: "real \<Rightarrow> string" where
  "getZodiacConstellation_p003 eclipticLon = zodiac_loop ZODIAC_BOUNDS eclipticLon"

text \<open>The thirteen IAU codes, as listed in \<open>scripts/filter-stars.js\<close>.\<close>

definition ZODIAC :: "string list" where
  "ZODIAC = [''Cap'', ''Aqr'', ''Psc'', ''Ari'', ''Tau'', ''Gem'',
             ''Cnc'', ''Leo'', ''Vir'', ''Lib'', ''Sco'', ''Oph'', ''Sgr'']"

text \<open>The entries of a table whose interval contains the longitude.\<close>

definition matching :: "zodiac_bound list \<Rightarrow> real \<Rightarrow> zodiac_bound list" where
  "matching tab eclipticLon = filter (in_bound eclipticLon) tab"


section \<open>Tropical sign\<close>








section \<open>Stereographic projection\<close>

text \<open>A projected point \<open>{ x, y }\<close>; \<open>null\<close> is \<open>None\<close>.\<close>

record point =
  point_x :: real
  point_y :: real

text \<open>
  \<open>project(ra, dec, centerRA, fov = 180)\<close> of \<open>src/rendering.js\<close>. The parameter \<open>fov\<close>
  only feeds \<open>halfFov\<close>, which is not used afterwards.
\<close>

definition project :: "real \<Rightarrow> real \<Rightarrow> real \<Rightarrow> real \<Rightarrow> point option" where
  "project ra dec centerRA fov =
     (let halfFov = toRad (fov / 2);
          raRad = toRad (ra - centerRA);
          decRad = toRad dec;
          cosDist = cos decRad * cos raRad
      in if cosDist < -0.01 then None
         else let x = cos decRad * sin raRad;
                  y = sin decRad;
                  d = 1 + cosDist
              in Some \<lparr>point_x = x / d, point_y = - y / d\<rparr>)"

text \<open>
  \<open>project(ra, dec, centerRA)\<close> of the later \<open>rendering.js\<close> (part 000): the difference of
  the right ascensions is first moved by one turn when it is above 180 or below -180.
\<close>

definition project_p000 :: "real \<Rightarrow> real \<Rightarrow> real \<Rightarrow> point option" where
  "project_p000 ra dec centerRA =
     (let dra0 = ra - centerRA;
          dra1 = (if dra0 > 180 then dra0 - 360 else dra0);
          dra = (if dra1 < -180 then dra1 + 360 else dra1);
          draR = toRad dra;
          decR = toRad dec;
          cosDist = cos decR * cos draR
      in if cosDist < -0.01 then None
         else let d = 1 + cosDist
              in Some \<lparr>point_x = cos decR * sin draR / d, point_y = - sin decR / d\<rparr>)"

text \<open>The cosine of the angular distance of a target from the view centre, as the
  specification writes it: \<open>cos(dec) \<sqdot> cos(ra - centerRA)\<close>, angles in degrees.\<close>

definition cosDist_of :: "real \<Rightarrow> real \<Rightarrow> real \<Rightarrow> real" where
  "cosDist_of ra dec centerRA = cos (toRad dec) * cos (toRad (ra - centerRA))"


section \<open>Sun, Moon and solar altitude\<close>

text \<open>\<open>const J2000 = Date.UTC(2000, 0, 1, 12, 0, 0);
  function daysSinceJ2000(date) { return (date.getTime() - J2000) / 86400000; }\<close>\<close>

definition J2000 :: int where
  "J2000 = Date_UTC 2000 0 1 12 0 0"

definition daysSinceJ2000 :: "date \<Rightarrow> real" where
  "daysSinceJ2000 date = real_of_int (getTime date - J2000) / 86400000"

text \<open>The objects \<open>{ ra, dec }\<close>, \<open>{ ra, dec, lon }\<close> and \<open>{ ra, dec, phase }\<close>.\<close>

record equatorial =
  eq_ra :: real
  eq_dec :: real

record sun_position = equatorial +
  sun_lon :: real

record moon_state = equatorial +
  moon_phase :: real

subsection \<open>The mean-element revision (part 002)\<close>

definition obliquity :: "real \<Rightarrow> real" where
  "obliquity n = 23.439 - 0.0000004 * n"

definition eclToEq_p002 :: "real \<Rightarrow> real \<Rightarrow> equatorial" where
  "eclToEq_p002 lon n =
     (let eps = toRad (obliquity n);
          l = toRad lon
      in \<lparr>eq_ra = mod360 (toDeg (atan2 (cos eps * sin l) (cos l))),
          eq_dec = toDeg (arcsin (sin eps * sin l))\<rparr>)"

definition getSunPosition_p002 :: "date \<Rightarrow> sun_position" where
  "getSunPosition_p002 date =
     (let n = daysSinceJ2000 date;
          L = mod360 (280.460 + 0.9856474 * n);
          g = toRad (mod360 (357.528 + 0.9856003 * n));
          lon = mod360 (L + 1.915 * sin g + 0.020 * sin (2 * g));
          e = eclToEq_p002 lon n
      in \<lparr>eq_ra = eq_ra e, eq_dec = eq_dec e, sun_lon = lon\<rparr>)"

definition getMoon_p002 :: "date \<Rightarrow> moon_state" where
  "getMoon_p002 date =
     (let knownNew = Date_UTC 2000 0 6 18 14 0;
          days = real_of_int (getTime date - knownNew) / 86400000;
          synodic = 29.53058867;
          phase0 = js_rem days synodic / synodic;
          phase = (if phase0 < 0 then phase0 + 1 else phase0);
          sun = getSunPosition_p002 date;
          ra = mod360 (eq_ra sun + js_rem days synodic * 12.19);
          dec = 5.145 * sin ((days / 27.21222) * 2 * pi)
      in \<lparr>eq_ra = ra, eq_dec = dec, moon_phase = phase\<rparr>)"



subsection \<open>The revision on the astronomy-engine library (part 003)\<close>

text \<open>
  The library is loaded by the page as \<open>window.Astronomy\<close> and is not part of the
  repository; the functions of it that \<open>astronomy.js\<close> calls are parameters of the model:
  \<open>SunPosition(date).elon\<close>, the pair \<open>(elon, elat)\<close> of
  \<open>Ecliptic(GeoVector(body, date, false))\<close>, and \<open>MoonPhase(date)\<close>.
\<close>

record astronomy_engine =
  SunPosition_elon :: "date \<Rightarrow> real"
  GeoVector_Ecliptic :: "string \<Rightarrow> date \<Rightarrow> real \<times> real"
  MoonPhase :: "date \<Rightarrow> real"

definition eclToEq_p003 :: "real \<Rightarrow> real \<Rightarrow> equatorial" where
  "eclToEq_p003 lon lat =
     (let eps = toRad 23.4393;
          lonR = toRad lon; latR = toRad lat;
          sinDec = sin latR * cos eps + cos latR * sin eps * sin lonR;
          dec = toDeg (arcsin (max (-1) (min 1 sinDec)));
          ra = mod360 (toDeg (atan2 (sin lonR * cos eps - tan latR * sin eps) (cos lonR)))
      in \<lparr>eq_ra = ra, eq_dec = dec\<rparr>)"

definition getMoon_p003 :: "astronomy_engine \<Rightarrow> date \<Rightarrow> moon_state" where
  "getMoon_p003 Astronomy date =
     (case GeoVector_Ecliptic Astronomy ''Moon'' date of (elon, elat) \<Rightarrow>
        let e = eclToEq_p003 elon elat;
            phase = mod360 (MoonPhase Astronomy date) / 360
        in \<lparr>eq_ra = eq_ra e, eq_dec = eq_dec e, moon_phase = phase\<rparr>)"



section \<open>Canvas and catalogues\<close>

text \<open>
  The renderer talks to a \<open>CanvasRenderingContext2D\<close>: it calls its methods and assigns
  its properties, and never reads a drawing property back. A call or an assignment is a
  \<open>canvas_op\<close>. A fill or stroke style is a CSS colour string, a colour string built by
  \<open>starColor\<close> from three channels and an alpha, or the gradient object created by the
  latest \<open>createRadialGradient\<close> / \<open>createLinearGradient\<close> call.
\<close>

datatype paint = Css string | Rgba nat nat nat real | Gradient

datatype canvas_op =
    ClearRect real real real real
  | Save
  | Restore
  | Translate real real
  | BeginPath
  | ClosePath
  | MoveTo real real
  | LineTo real real
  | QuadraticCurveTo real real real real
  | Arc real real real real real bool
  | Ellipse real real real real real real real bool
  | Fill
  | Stroke
  | Clip
  | FillText string real real
  | CreateRadialGradient real real real real real real
  | CreateLinearGradient real real real real
  | AddColorStop real string
  | SetFillStyle paint
  | SetStrokeStyle paint
  | SetLineWidth real
  | SetShadowBlur real
  | SetShadowColor paint
  | SetFilterBlur real
  | SetGlobalAlpha real
  | SetFont string
  | SetTextAlign string

text \<open>
  One draw operation is the sequence of calls issued by one drawing helper, or by one
  block of \<open>drawStarMap\<close> itself, together with the part of the code that issued it.
\<close>

datatype emitter =
  ClearCanvas | Earth | ConstellationLines | ShadowReset | Star | Planet | Moon | SpecialPoint | Sun

type_synonym draw = "emitter \<times> canvas_op list"

text \<open>The context: the dimensions of its canvas, and the draw operations issued on it so far.\<close>

record ctx =
  canvas_width :: real
  canvas_height :: real
  draws :: "draw list"

definition emit :: "emitter \<Rightarrow> canvas_op list \<Rightarrow> ctx \<Rightarrow> ctx" where
  "emit e ops c = c\<lparr>draws := draws c @ [(e, ops)]\<rparr>"

text \<open>The catalogue entries \<open>{ ra, dec, mag, bv }\<close> and \<open>{ id, lines }\<close>; a line is a list
  of \<open>[ra, dec]\<close> vertices.\<close>

record star =
  star_ra :: real
  star_dec :: real
  star_mag :: real
  star_bv :: real

record constellation =
  const_id :: string
  const_lines :: "(real \<times> real) list list"


section \<open>The renderer of \<open>src/rendering.js\<close>\<close>

text \<open>\<open>starColor(bv)\<close> returns the prefix of an \<open>rgba(\<close> colour, completed by the caller.\<close>

definition starColor :: "real \<Rightarrow> string" where
  "starColor bv =
     (if bv \<le> 0.0 then ''rgba(180, 200, 255, ''
      else if bv \<le> 0.5 then ''rgba(240, 240, 255, ''
      else if bv \<le> 1.0 then ''rgba(255, 255, 220, ''
      else if bv \<le> 1.5 then ''rgba(255, 220, 180, ''
      else ''rgba(255, 180, 140, '')"

definition starRadius :: "real \<Rightarrow> real" where
  "starRadius mag = max 0.5 (3.0 - mag * 0.45)"

text \<open>The body of the loop \<open>for (let i = 0; i < 4; i++)\<close> of \<open>draw4PointStar\<close>.\<close>

definition draw4PointStar_step :: "real \<Rightarrow> nat \<Rightarrow> canvas_op list" where
  "draw4PointStar_step sz i =
     (let angle = real i * pi / 2 - pi / 4;
          ox = cos angle * sz;
          oy = sin angle * sz;
          ia = angle + pi / 4;
          ix = cos ia * sz * 0.25;
          iy = sin ia * sz * 0.25
      in [if i = 0 then MoveTo ox oy else LineTo ox oy, LineTo ix iy])"

definition draw4PointStar :: "real \<Rightarrow> real \<Rightarrow> real \<Rightarrow> string \<Rightarrow> canvas_op list" where
  "draw4PointStar x y sz color =
     [Save, Translate x y, SetShadowBlur (sz * 3), SetShadowColor (Css (color @ ''0.5)'')),
      SetFillStyle (Css (color @ ''1)'')), BeginPath]
     @ concat (map (draw4PointStar_step sz) [0, 1, 2, 3])
     @ [ClosePath, Fill, Restore]"




text \<open>The options object \<open>{ stars, constellations, sunRA, sunDec, activeConstId, fov }\<close>; the
  caller's omission of \<open>fov\<close> is the value 180.\<close>

record opts =
  opt_stars :: "star list"
  opt_constellations :: "constellation list"
  opt_sunRA :: real
  opt_sunDec :: real
  opt_activeConstId :: string
  opt_fov :: real

text \<open>The body of the callback of \<open>stars.forEach\<close>.\<close>

definition star_step :: "real \<Rightarrow> real \<Rightarrow> real \<Rightarrow> real \<Rightarrow> real \<Rightarrow> star \<Rightarrow> ctx \<Rightarrow> ctx" where
  "star_step cx cy scale sunRA fov s ctx =
     (case project (star_ra s) (star_dec s) sunRA fov of
        None \<Rightarrow> ctx
      | Some p \<Rightarrow>
          let px = cx + point_x p * scale;
              py = cy + point_y p * scale;
              r = starRadius (star_mag s)
          in emit Star (draw4PointStar px py r (starColor (star_bv s))) ctx)"


section \<open>The renderer of the later \<open>rendering.js\<close> (part 000)\<close>

text \<open>
  The drawing helpers \<open>drawStarShape4\<close>, \<open>drawSun\<close>, \<open>drawMoon\<close>, \<open>drawPlanet\<close>,
  \<open>drawSpecialPoint\<close>, \<open>drawLabel\<close> and \<open>drawEarth\<close> only issue calls on the context they
  are given; each is the list of the calls it issues, in order.
\<close>

text \<open>The body of the loop \<open>for (let i = 0; i < 4; i++)\<close> of \<open>drawStarShape4\<close>.\<close>

definition drawStarShape4_step :: "real \<Rightarrow> nat \<Rightarrow> canvas_op list" where
  "drawStarShape4_step sz i =
     (let a = (real i * pi) / 2;
          na = ((real i + 1) * pi) / 2;
          tipX = cos a * sz;
          tipY = sin a * sz;
          ntipX = cos na * sz;
          ntipY = sin na * sz;
          mid = a + pi / 4
      in (if i = 0 then [MoveTo tipX tipY] else [])
         @ [QuadraticCurveTo (cos mid * sz * 0.10) (sin mid * sz * 0.10) ntipX ntipY])"

definition drawStarShape4 :: "real \<Rightarrow> real \<Rightarrow> real \<Rightarrow> paint \<Rightarrow> paint option \<Rightarrow> canvas_op list" where
  "drawStarShape4 x y sz color glowColor =
     [Save, Translate x y]
     @ (case glowColor of
          Some g \<Rightarrow> [SetShadowBlur (sz * 3), SetShadowColor g]
        | None \<Rightarrow> [])
     @ [SetFillStyle color, BeginPath]
     @ concat (map (drawStarShape4_step sz) [0, 1, 2, 3])
     @ [ClosePath, Fill, Fill, Restore]"

text \<open>\<open>starColor(bv, alpha = 1)\<close> builds \<open>rgba(r,g,b,alpha)\<close>.\<close>

definition starColor_p000 :: "real \<Rightarrow> real \<Rightarrow> paint" where
  "starColor_p000 bv alpha =
     (if bv \<le> 0.0 then Rgba 180 200 255 alpha
      else if bv \<le> 0.5 then Rgba 240 240 255 alpha
      else if bv \<le> 1.0 then Rgba 255 255 220 alpha
      else if bv \<le> 1.5 then Rgba 255 220 180 alpha
      else Rgba 255 180 140 alpha)"

definition starRadius_p000 :: "real \<Rightarrow> real" where
  "starRadius_p000 mag = max 0.6 (3.2 - mag * 0.45)"

definition drawSun :: "real \<Rightarrow> real \<Rightarrow> canvas_op list" where
  "drawSun x y =
     (let sz = 12
      in [CreateRadialGradient x y 0 x y (sz * 2.5),
          AddColorStop 0 ''rgba(251,191,36,0.8)'',
          AddColorStop 0.5 ''rgba(251,191,36,0.4)'',
          AddColorStop 1 ''rgba(251,191,36,0)'',
          SetFillStyle Gradient, BeginPath, Arc x y (sz * 2.5) 0 (pi * 2) False, Fill,
          SetFillStyle (Css ''#fbbf24''), BeginPath, Arc x y sz 0 (pi * 2) False, Fill])"

definition drawLabel :: "real \<Rightarrow> real \<Rightarrow> real \<Rightarrow> string \<Rightarrow> string \<Rightarrow> canvas_op list" where
  "drawLabel x y offset text color =
     [Save, SetFillStyle (Css color), SetFont ''bold 11px sans-serif'', SetTextAlign ''left'',
      SetShadowColor (Css ''black''), SetShadowBlur 4,
      FillText text (x + offset + 6) (y + 4), Restore]"

text \<open>The label of the Moon starts with the character U+263D, kept as its UTF-8 bytes.\<close>

definition drawMoon :: "real \<Rightarrow> real \<Rightarrow> real \<Rightarrow> canvas_op list" where
  "drawMoon x y phase =
     (let sz = 10;
          inv = 1 - phase
      in [CreateRadialGradient x y 0 x y (sz * 2.5),
          AddColorStop 0 ''rgba(226,232,240,0.5)'',
          AddColorStop 1 ''rgba(226,232,240,0)'',
          SetFillStyle Gradient, BeginPath, Arc x y (sz * 2.5) 0 (pi * 2) False, Fill,
          SetFillStyle (Css ''#1a1a2e''), BeginPath, Arc x y sz 0 (pi * 2) False, Fill,
          Save, BeginPath, Arc x y sz 0 (pi * 2) False, Clip,
          SetFillStyle (Css ''#f1f5f9''), BeginPath]
         @ (if inv < 0.5
            then let t = inv * 2
                 in [Arc x y sz (- pi / 2) (pi / 2) True,
                     Ellipse x y ((1 - t) * sz) sz 0 (pi / 2) (- pi / 2) False]
            else let t = (inv - 0.5) * 2
                 in [Arc x y sz (pi / 2) (- pi / 2) True,
                     Ellipse x y (t * sz) sz 0 (- pi / 2) (pi / 2) False])
         @ [ClosePath, Fill, Restore,
            SetStrokeStyle (Css ''rgba(255,255,255,0.3)''), SetLineWidth 0.5, BeginPath,
            Arc x y sz 0 (pi * 2) False, Stroke]
         @ drawLabel x y sz ([CHR 0xE2, CHR 0x98, CHR 0xBD] @ '' Moon'') ''#e2e8f0'')"

text \<open>The entries of \<open>PLANETS\<close> and \<open>SPECIALS\<close>.\<close>

record planet_def =
  pd_name :: string
  pd_symbol :: string
  pd_color :: string
  pd_size :: real
  pd_hasRings :: bool

record special_def =
  sd_name :: string
  sd_symbol :: string
  sd_color :: string
  sd_size :: real
  sd_isNode :: bool

definition drawPlanet :: "real \<Rightarrow> real \<Rightarrow> planet_def \<Rightarrow> canvas_op list" where
  "drawPlanet x y def =
     [CreateRadialGradient x y 0 x y (pd_size def * 2.5),
      AddColorStop 0 (pd_color def @ ''99''),
      AddColorStop 1 (pd_color def @ ''00''),
      SetFillStyle Gradient, BeginPath, Arc x y (pd_size def * 2.5) 0 (pi * 2) False, Fill,
      SetFillStyle (Css (pd_color def)), BeginPath, Arc x y (pd_size def) 0 (pi * 2) False, Fill]
     @ (if pd_hasRings def
        then [SetStrokeStyle (Css (pd_color def @ ''80'')), SetLineWidth 1.5, BeginPath,
              Ellipse x y (pd_size def * 1.8) (pd_size def * 0.5) 0 0 (pi * 2) False, Stroke]
        else [])
     @ drawLabel x y (pd_size def) (pd_symbol def @ '' '' @ pd_name def) (pd_color def)"

definition drawSpecialPoint :: "real \<Rightarrow> real \<Rightarrow> special_def \<Rightarrow> canvas_op list" where
  "drawSpecialPoint x y def =
     (if sd_isNode def
      then [SetFillStyle (Css (sd_color def)), BeginPath,
            MoveTo x (y - sd_size def),
            LineTo (x + sd_size def * 0.7) y,
            LineTo x (y + sd_size def),
            LineTo (x - sd_size def * 0.7) y,
            ClosePath, Fill]
      else [CreateRadialGradient x y 0 x y (sd_size def * 2),
            AddColorStop 0 (sd_color def @ ''99''),
            AddColorStop 1 (sd_color def @ ''00''),
            SetFillStyle Gradient, BeginPath, Arc x y (sd_size def * 2) 0 (pi * 2) False, Fill,
            SetFillStyle (Css (sd_color def)), BeginPath, Arc x y (sd_size def) 0 (pi * 2) False, Fill])
     @ drawLabel x y (sd_size def) (sd_symbol def @ '' '' @ sd_name def) (sd_color def)"

definition drawEarth :: "real \<Rightarrow> real \<Rightarrow> real \<Rightarrow> canvas_op list" where
  "drawEarth w h altitude =
     (let opacity = (if altitude > 5 then 1
                     else if altitude < -5 then 0.1
                     else 0.1 + ((altitude + 5) / 10) * 0.9);
          earthRadius = min w h * 3;
          earthY = h / 2 + earthRadius * (1 + altitude / 90);
          earthX = w / 2
      in [Save, SetFilterBlur ((1 - opacity) * 5), SetGlobalAlpha opacity,
          BeginPath, Arc earthX earthY earthRadius 0 (pi * 2) False, Clip,
          CreateLinearGradient 0 (earthY - earthRadius) 0 (earthY + earthRadius),
          AddColorStop 0 ''rgba(34,50,30,0.6)'',
          AddColorStop 0.3 ''rgba(20,35,20,0.8)'',
          AddColorStop 1 ''rgba(10,15,10,1)'',
          SetFillStyle Gradient, BeginPath, Arc earthX earthY earthRadius 0 (pi * 2) False, Fill,
          Restore])"

text \<open>The tables \<open>PLANETS\<close> and \<open>SPECIALS\<close>, in the order of their properties; the symbols
  are kept as their UTF-8 bytes.\<close>

definition PLANETS :: "(string \<times> planet_def) list" where
  "PLANETS =
    [(''mercury'', \<lparr>pd_name = ''Mercury'', pd_symbol = [CHR 0xE2, CHR 0x98, CHR 0xBF], pd_color = ''#a0a0a0'', pd_size = 3, pd_hasRings = False\<rparr>),
     (''venus'', \<lparr>pd_name = ''Venus'', pd_symbol = [CHR 0xE2, CHR 0x99, CHR 0x80], pd_color = ''#e8c88a'', pd_size = 4, pd_hasRings = False\<rparr>),
     (''mars'', \<lparr>pd_name = ''Mars'', pd_symbol = [CHR 0xE2, CHR 0x99, CHR 0x82], pd_color = ''#c1440e'', pd_size = 3.5, pd_hasRings = False\<rparr>),
     (''jupiter'', \<lparr>pd_name = ''Jupiter'', pd_symbol = [CHR 0xE2, CHR 0x99, CHR 0x83], pd_color = ''#c88b3a'', pd_size = 5, pd_hasRings = False\<rparr>),
     (''saturn'', \<lparr>pd_name = ''Saturn'', pd_symbol = [CHR 0xE2, CHR 0x99, CHR 0x84], pd_color = ''#d4a855'', pd_size = 4.5, pd_hasRings = True\<rparr>),
     (''uranus'', \<lparr>pd_name = ''Uranus'', pd_symbol = [CHR 0xE2, CHR 0x9B, CHR 0xA2], pd_color = ''#7de8e8'', pd_size = 3.5, pd_hasRings = False\<rparr>),
     (''neptune'', \<lparr>pd_name = ''Neptune'', pd_symbol = [CHR 0xE2, CHR 0x99, CHR 0x86], pd_color = ''#3a5fcd'', pd_size = 3.5, pd_hasRings = False\<rparr>)]"

definition SPECIALS :: "(string \<times> special_def) list" where
  "SPECIALS =
    [(''lilith'', \<lparr>sd_name = ''Lilith'', sd_symbol = [CHR 0xE2, CHR 0x9B, CHR 0xB0], sd_color = ''#a855f7'', sd_size = 2.5, sd_isNode = False\<rparr>),
     (''northNode'', \<lparr>sd_name = ''North Node'', sd_symbol = [CHR 0xE2, CHR 0x98, CHR 0x8A], sd_color = ''#22d3ee'', sd_size = 2.5, sd_isNode = True\<rparr>),
     (''chiron'', \<lparr>sd_name = ''Chiron'', sd_symbol = [CHR 0xE2, CHR 0x9A, CHR 0x95], sd_color = ''#f472b6'', sd_size = 2.5, sd_isNode = False\<rparr>)]"

text \<open>
  The options object. \<open>planets\<close> is an object from planet ids to positions, read through
  \<open>Object.entries\<close>, so a list of pairs in property order, a position being possibly
  \<open>null\<close>; \<open>specials\<close> holds the Moon and the three special points, each possibly
  absent. \<open>planets\<close>, \<open>specials\<close> and \<open>altitude\<close> may themselves be absent. The option
  \<open>moon\<close> is passed by the caller and never read.
\<close>

record specials =
  sp_moon :: "moon_state option"
  sp_lilith :: "equatorial option"
  sp_northNode :: "equatorial option"
  sp_chiron :: "equatorial option"

record opts_p000 =
  stars_p000 :: "star list"
  constellations_p000 :: "constellation list"
  sunRA_p000 :: real
  sunDec_p000 :: real
  activeConstId_p000 :: string
  moon_p000 :: "moon_state option"
  planets_p000 :: "(string \<times> equatorial option) list option"
  specials_p000 :: "specials option"
  altitude_p000 :: "real option"

text \<open>\<open>specials[key]\<close> for a key of the list \<open>['lilith', 'northNode', 'chiron']\<close>.\<close>

definition specials_at :: "specials \<Rightarrow> string \<Rightarrow> equatorial option" where
  "specials_at sp key =
     (if key = ''lilith'' then sp_lilith sp
      else if key = ''northNode'' then sp_northNode sp
      else if key = ''chiron'' then sp_chiron sp
      else None)"

text \<open>\<open>window.devicePixelRatio\<close>, possibly undefined.\<close>

record window =
  devicePixelRatio :: "real option"

fun line_path_p000 :: "real \<Rightarrow> real \<Rightarrow> real \<Rightarrow> real \<Rightarrow> bool \<Rightarrow> (real \<times> real) list \<Rightarrow> canvas_op list" where
  "line_path_p000 cx cy scale sunRA started [] = []"
| "line_path_p000 cx cy scale sunRA started ((ra, dec) # vs) =
     (case project_p000 ra dec sunRA of
        None \<Rightarrow> line_path_p000 cx cy scale sunRA False vs
      | Some p \<Rightarrow>
          let px = cx + point_x p * scale;
              py = cy + point_y p * scale
          in (if \<not> started then MoveTo px py else LineTo px py)
             # line_path_p000 cx cy scale sunRA True vs)"

definition constellation_ops_p000 :: "real \<Rightarrow> real \<Rightarrow> real \<Rightarrow> real \<Rightarrow> string \<Rightarrow> constellation \<Rightarrow> canvas_op list" where
  "constellation_ops_p000 cx cy scale sunRA activeConstId c =
     (let active = (const_id c = activeConstId)
      in [SetStrokeStyle (Css (if active then ''rgba(212,175,55,0.85)'' else ''rgba(212,175,55,0.2)'')),
          SetLineWidth (if active then 1.8 else 1.0),
          SetShadowBlur (if active then 10 else 0),
          SetShadowColor (Css ''rgba(212,175,55,0.6)'')]
         @ concat (map (\<lambda>line. [BeginPath] @ line_path_p000 cx cy scale sunRA False line @ [Stroke])
                     (const_lines c)))"

text \<open>The bodies of the three \<open>forEach\<close> callbacks over stars, planets and special points.\<close>

definition star_step_p000 :: "real \<Rightarrow> real \<Rightarrow> real \<Rightarrow> real \<Rightarrow> star \<Rightarrow> ctx \<Rightarrow> ctx" where
  "star_step_p000 cx cy scale sunRA s ctx =
     (case project_p000 (star_ra s) (star_dec s) sunRA of
        None \<Rightarrow> ctx
      | Some p \<Rightarrow>
          let px = cx + point_x p * scale;
              py = cy + point_y p * scale;
              r = starRadius_p000 (star_mag s)
          in emit Star (drawStarShape4 px py r (starColor_p000 (star_bv s) 1)
                          (if star_mag s < 3 then Some (starColor_p000 (star_bv s) 0.4) else None))
               ctx)"

definition planet_step :: "real \<Rightarrow> real \<Rightarrow> real \<Rightarrow> real \<Rightarrow> string \<times> equatorial option \<Rightarrow> ctx \<Rightarrow> ctx" where
  "planet_step cx cy scale sunRA entry ctx =
     (case entry of (id', pos) \<Rightarrow>
        case map_of PLANETS id' of
          None \<Rightarrow> ctx
        | Some def \<Rightarrow>
            (case pos of
               None \<Rightarrow> ctx
             | Some pos \<Rightarrow>
                 (case project_p000 (eq_ra pos) (eq_dec pos) sunRA of
                    None \<Rightarrow> ctx
                  | Some p \<Rightarrow>
                      emit Planet (drawPlanet (cx + point_x p * scale) (cy + point_y p * scale) def) ctx)))"

text \<open>\<open>SPECIALS[key]\<close> is defined for each of the three keys the loop runs over.\<close>

definition special_step :: "real \<Rightarrow> real \<Rightarrow> real \<Rightarrow> real \<Rightarrow> specials \<Rightarrow> string \<Rightarrow> ctx \<Rightarrow> ctx" where
  "special_step cx cy scale sunRA sp key ctx =
     (case specials_at sp key of
        None \<Rightarrow> ctx
      | Some pos \<Rightarrow>
          (case project_p000 (eq_ra pos) (eq_dec pos) sunRA of
             None \<Rightarrow> ctx
           | Some p \<Rightarrow>
               (case map_of SPECIALS key of
                  None \<Rightarrow> ctx
                | Some def \<Rightarrow>
                    emit SpecialPoint
                      (drawSpecialPoint (cx + point_x p * scale) (cy + point_y p * scale) def) ctx)))"

definition moon_step :: "real \<Rightarrow> real \<Rightarrow> real \<Rightarrow> real \<Rightarrow> specials \<Rightarrow> ctx \<Rightarrow> ctx" where
  "moon_step cx cy scale sunRA sp ctx =
     (case sp_moon sp of
        None \<Rightarrow> ctx
      | Some m \<Rightarrow>
          (case project_p000 (eq_ra m) (eq_dec m) sunRA of
             None \<Rightarrow> ctx
           | Some p \<Rightarrow>
               emit Moon (drawMoon (cx + point_x p * scale) (cy + point_y p * scale) (moon_phase m)) ctx))"

definition drawStarMap_p000 :: "window \<Rightarrow> ctx \<Rightarrow> opts_p000 \<Rightarrow> ctx" where
  "drawStarMap_p000 window ctx0 opts =
     (let dpr = (case devicePixelRatio window of
                   None \<Rightarrow> 1
                 | Some r \<Rightarrow> if r = 0 then 1 else r);
          w = canvas_width ctx0 / dpr;
          h = canvas_height ctx0 / dpr;
          cx = w / 2;
          cy = h / 2;
          scale = min w h * 0.45;
          sunRA = sunRA_p000 opts;
          ctx1 = emit ClearCanvas [ClearRect 0 0 w h] ctx0;
          ctx2 = (case altitude_p000 opts of
                    None \<Rightarrow> ctx1
                  | Some altitude \<Rightarrow> emit Earth (drawEarth w h altitude) ctx1);
          ctx3 = fold (\<lambda>c. emit ConstellationLines
                         (constellation_ops_p000 cx cy scale sunRA (activeConstId_p000 opts) c))
                   (constellations_p000 opts) ctx2;
          ctx4 = emit ShadowReset [SetShadowBlur 0] ctx3;
          ctx5 = fold (star_step_p000 cx cy scale sunRA) (stars_p000 opts) ctx4;
          ctx6 = (case planets_p000 opts of
                    None \<Rightarrow> ctx5
                  | Some planets \<Rightarrow> fold (planet_step cx cy scale sunRA) planets ctx5);
          ctx7 = (case specials_p000 opts of
                    None \<Rightarrow> ctx6
                  | Some sp \<Rightarrow>
                      fold (special_step cx cy scale sunRA sp) [''lilith'', ''northNode'', ''chiron'']
                        (moon_step cx cy scale sunRA sp ctx6))
      in case project_p000 sunRA (sunDec_p000 opts) sunRA of
           None \<Rightarrow> ctx7
         | Some sunP \<Rightarrow> emit Sun (drawSun (cx + point_x sunP * scale) (cy + point_y sunP * scale)) ctx7)"

text \<open>The draw operations issued between two states of the same context.\<close>

definition frame :: "ctx \<Rightarrow> ctx \<Rightarrow> draw list" where
  "frame before after = drop (length (draws before)) (draws after)"

text \<open>The draw operations a step issues, observed on a context with nothing drawn yet.\<close>

definition blank :: ctx where
  "blank = \<lparr>canvas_width = 0, canvas_height = 0, draws = []\<rparr>"

definition issued :: "(ctx \<Rightarrow> ctx) \<Rightarrow> draw list" where
  "issued f = draws (f blank)"

text \<open>
  The layers of one frame as the specification lists them, back to front, for a canvas of
  the given width and height: the cleared canvas, the horizon, the constellation lines,
  the reset of the shadow, the background stars, the planets, the Moon, the special
  points and the Sun. The Moon stands before the special points, as in the code.
\<close>

definition layers_p000 :: "window \<Rightarrow> real \<Rightarrow> real \<Rightarrow> opts_p000 \<Rightarrow> draw list list" where
  "layers_p000 window width height opts =
     (let dpr = (case devicePixelRatio window of
                   None \<Rightarrow> 1
                 | Some r \<Rightarrow> if r = 0 then 1 else r);
          w = width / dpr;
          h = height / dpr;
          cx = w / 2;
          cy = h / 2;
          scale = min w h * 0.45;
          sunRA = sunRA_p000 opts
      in [[(ClearCanvas, [ClearRect 0 0 w h])],
          (case altitude_p000 opts of
             None \<Rightarrow> []
           | Some altitude \<Rightarrow> [(Earth, drawEarth w h altitude)]),
          map (\<lambda>c. (ConstellationLines,
                     constellation_ops_p000 cx cy scale sunRA (activeConstId_p000 opts) c))
            (constellations_p000 opts),
          [(ShadowReset, [SetShadowBlur 0])],
          concat (map (\<lambda>s. issued (star_step_p000 cx cy scale sunRA s)) (stars_p000 opts)),
          (case planets_p000 opts of
             None \<Rightarrow> []
           | Some planets \<Rightarrow> concat (map (\<lambda>e. issued (planet_step cx cy scale sunRA e)) planets)),
          (case specials_p000 opts of
             None \<Rightarrow> []
           | Some sp \<Rightarrow> issued (moon_step cx cy scale sunRA sp)),
          (case specials_p000 opts of
             None \<Rightarrow> []
           | Some sp \<Rightarrow>
               concat (map (\<lambda>key. issued (special_step cx cy scale sunRA sp key))
                         [''lilith'', ''northNode'', ''chiron''])),
          (case project_p000 sunRA (sunDec_p000 opts) sunRA of
             None \<Rightarrow> []
           | Some sunP \<Rightarrow>
               [(Sun, drawSun (cx + point_x sunP * scale) (cy + point_y sunP * scale))])])"


text \<open>The back-to-front position of each kind of draw operation, in the order in which
  \<open>drawStarMap\<close> issues them.\<close>

fun layer :: "emitter \<Rightarrow> nat" where
  "layer ClearCanvas = 0"
| "layer Earth = 1"
| "layer ConstellationLines = 2"
| "layer ShadowReset = 3"
| "layer Star = 4"
| "layer Planet = 5"
| "layer Moon = 6"
| "layer SpecialPoint = 7"
| "layer Sun = 8"

text \<open>Every draw operation of kind \<open>a\<close> comes before every draw operation of kind \<open>b\<close>:
  after an operation of kind \<open>b\<close>, no operation of kind \<open>a\<close> follows.\<close>

fun precedes :: "emitter \<Rightarrow> emitter \<Rightarrow> draw list \<Rightarrow> bool" where
  "precedes a b [] = True"
| "precedes a b (d # ds) = ((if fst d = b then a \<notin> fst ` set ds else True) \<and> precedes a b ds)"

text \<open>The frame one call of \<open>drawStarMap\<close> paints on a context.\<close>

definition frame_p000 :: "window \<Rightarrow> ctx \<Rightarrow> opts_p000 \<Rightarrow> draw list" where
  "frame_p000 window c opts = frame c (drawStarMap_p000 window c opts)"


text \<open>A step that only appends its draw operations to the context.\<close>

definition appends :: "(ctx \<Rightarrow> ctx) \<Rightarrow> bool" where
  "appends f = (\<forall>c. f c = c\<lparr>draws := draws c @ issued f\<rparr>)"

text \<open>Segments whose draw operations carry the consecutive numbers \<open>k\<close>, \<open>k + 1\<close>, ...\<close>

fun ranked :: "(draw \<Rightarrow> nat) \<Rightarrow> nat \<Rightarrow> draw list list \<Rightarrow> bool" where
  "ranked f k [] = True"
| "ranked f k (l # ls) = ((\<forall>d \<in> set l. f d = k) \<and> ranked f (Suc k) ls)"

text \<open>
  A sample input: an empty catalogue, the Sun at right ascension 0 on the equator, the
  Moon and Lilith both at the position of the Sun, no planets and no observer altitude,
  on a canvas of 800 by 600 pixels with nothing drawn yet; and the same canvas after
  something was drawn on it.
\<close>

definition sample_window :: window where
  "sample_window = \<lparr>devicePixelRatio = Some 2\<rparr>"

definition sample_ctx :: ctx where
  "sample_ctx = \<lparr>canvas_width = 800, canvas_height = 600, draws = []\<rparr>"


definition sample_opts :: opts_p000 where
  "sample_opts =
     \<lparr>stars_p000 = [], constellations_p000 = [], sunRA_p000 = 0, sunDec_p000 = 0,
      activeConstId_p000 = ''Psc'', moon_p000 = None, planets_p000 = None,
      specials_p000 = Some \<lparr>sp_moon = Some \<lparr>eq_ra = 0, eq_dec = 0, moon_phase = 0.5\<rparr>,
                             sp_lilith = Some \<lparr>eq_ra = 0, eq_dec = 0\<rparr>,
                             sp_northNode = None, sp_chiron = None\<rparr>,
      altitude_p000 = None\<rparr>"



section \<open>Zodiac lookup: coverage and fallback\<close>

lemma in_bound_simp [simp]:
  "in_bound l \<lparr>zid = i, zfrom = a, zto = b\<rparr> = (a \<le> l \<and> l < b)"
  by (simp add: in_bound_def)

lemma matching_boundaries_length:
  "length (matching ZODIAC_BOUNDARIES l) = (if 0 \<le> l \<and> l < 360 then 1 else 0)"
  unfolding matching_def ZODIAC_BOUNDARIES_def by simp

lemma matching_bounds_length:
  "length (matching ZODIAC_BOUNDS l) = (if 0 \<le> l \<and> l < 360 then 1 else 0)"
  unfolding matching_def ZODIAC_BOUNDS_def by simp

text \<open>The loop returns the id of the first matching entry, and the literal \<open>"Sgr"\<close>
  when there is none.\<close>

lemma zodiac_loop_first_match:
  "zodiac_loop tab l = (case matching tab l of [] \<Rightarrow> ''Sgr'' | z # _ \<Rightarrow> zid z)"
  by (induction tab) (simp_all add: matching_def)

lemma zodiac_loop_in_codes:
  "''Sgr'' \<in> C \<Longrightarrow> zid ` set tab \<subseteq> C \<Longrightarrow> zodiac_loop tab l \<in> C"
  by (induction tab) auto

lemma boundaries_ids: "zid ` set ZODIAC_BOUNDARIES = set ZODIAC"
  unfolding ZODIAC_BOUNDARIES_def ZODIAC_def by auto

lemma bounds_ids: "zid ` set ZODIAC_BOUNDS = set ZODIAC"
  unfolding ZODIAC_BOUNDS_def ZODIAC_def by auto

lemma Sgr_in_ZODIAC: "''Sgr'' \<in> set ZODIAC"
  by (simp add: ZODIAC_def)

text \<open>
  Claim C1. Both tables have 14 entries over the 13 codes. For every ecliptic longitude
  in \<open>[0, 360)\<close> exactly one entry of the table matches (and none matches outside, so the
  intervals are disjoint and their union is \<open>[0, 360)\<close>); \<open>getZodiacConstellation\<close>
  returns the id of that entry, which is one of the 13 codes. At 300.0 the result is
  \<open>"Cap"\<close> and at 299.999 it is \<open>"Sgr"\<close>. This holds for the table of \<open>src/astronomy.js\<close>
  and for the reordered table of the later revisions.
\<close>

theorem zodiac_lookup_total:
  assumes "0 \<le> l" and "l < 360"
  shows "length ZODIAC_BOUNDARIES = 14 \<and> length ZODIAC_BOUNDS = 14
       \<and> length ZODIAC = 13 \<and> distinct ZODIAC
       \<and> (\<exists>z. matching ZODIAC_BOUNDARIES l = [z] \<and> getZodiacConstellation l = zid z)
       \<and> (\<exists>z. matching ZODIAC_BOUNDS l = [z] \<and> getZodiacConstellation_p003 l = zid z)
       \<and> (\<forall>l'. length (matching ZODIAC_BOUNDARIES l') = (if 0 \<le> l' \<and> l' < 360 then 1 else 0)
               \<and> length (matching ZODIAC_BOUNDS l') = (if 0 \<le> l' \<and> l' < 360 then 1 else 0))
       \<and> getZodiacConstellation l \<in> set ZODIAC
       \<and> getZodiacConstellation_p003 l \<in> set ZODIAC
       \<and> getZodiacConstellation 300.0 = ''Cap'' \<and> getZodiacConstellation 299.999 = ''Sgr''
       \<and> getZodiacConstellation_p003 300.0 = ''Cap''
       \<and> getZodiacConstellation_p003 299.999 = ''Sgr''"
proof -
  have len: "length ZODIAC_BOUNDARIES = 14" "length ZODIAC_BOUNDS = 14"
    "length ZODIAC = 13" "distinct ZODIAC"
    by (simp_all add: ZODIAC_BOUNDARIES_def ZODIAC_BOUNDS_def ZODIAC_def)
  have "length (matching ZODIAC_BOUNDARIES l) = 1"
    using assms by (simp add: matching_boundaries_length)
  then obtain z where z: "matching ZODIAC_BOUNDARIES l = [z]"
    by (cases "matching ZODIAC_BOUNDARIES l") auto
  have one: "\<exists>z. matching ZODIAC_BOUNDARIES l = [z] \<and> getZodiacConstellation l = zid z"
    using z by (simp add: getZodiacConstellation_def zodiac_loop_first_match)
  have "length (matching ZODIAC_BOUNDS l) = 1"
    using assms by (simp add: matching_bounds_length)
  then obtain z' where z': "matching ZODIAC_BOUNDS l = [z']"
    by (cases "matching ZODIAC_BOUNDS l") auto
  have one': "\<exists>z. matching ZODIAC_BOUNDS l = [z] \<and> getZodiacConstellation_p003 l = zid z"
    using z' by (simp add: getZodiacConstellation_p003_def zodiac_loop_first_match)
  have atmost: "\<forall>l'. length (matching ZODIAC_BOUNDARIES l') = (if 0 \<le> l' \<and> l' < 360 then 1 else 0)
               \<and> length (matching ZODIAC_BOUNDS l') = (if 0 \<le> l' \<and> l' < 360 then 1 else 0)"
    using matching_boundaries_length matching_bounds_length by blast
  have codes: "getZodiacConstellation l \<in> set ZODIAC" "getZodiacConstellation_p003 l \<in> set ZODIAC"
    unfolding getZodiacConstellation_def getZodiacConstellation_p003_def
    by (rule zodiac_loop_in_codes [OF Sgr_in_ZODIAC], simp add: boundaries_ids bounds_ids)+
  have ex: "getZodiacConstellation 300.0 = ''Cap''" "getZodiacConstellation 299.999 = ''Sgr''"
    "getZodiacConstellation_p003 300.0 = ''Cap''" "getZodiacConstellation_p003 299.999 = ''Sgr''"
    by (simp_all add: getZodiacConstellation_def getZodiacConstellation_p003_def
        ZODIAC_BOUNDARIES_def ZODIAC_BOUNDS_def)
  show ?thesis
    using len one one' atmost codes ex by (intro conjI)
qed

theorem zodiac_lookup_total_witness:
  "(0::real) \<le> 138.1 \<and> (138.1::real) < 360
   \<and> matching ZODIAC_BOUNDARIES 138.1 = [\<lparr>zid = ''Leo'', zfrom = 138.1, zto = 174.1\<rparr>]
   \<and> getZodiacConstellation 138.1 = ''Leo'' \<and> getZodiacConstellation_p003 138.1 = ''Leo''
   \<and> getZodiacConstellation 300.0 = ''Cap'' \<and> getZodiacConstellation 299.999 = ''Sgr''"
proof -
  have h: "(0::real) \<le> 138.1" "(138.1::real) < 360" by simp_all
  have m: "matching ZODIAC_BOUNDARIES 138.1 = [\<lparr>zid = ''Leo'', zfrom = 138.1, zto = 174.1\<rparr>]"
    "matching ZODIAC_BOUNDS 138.1 = [\<lparr>zid = ''Leo'', zfrom = 138.1, zto = 174.1\<rparr>]"
    by (simp_all add: matching_def ZODIAC_BOUNDARIES_def ZODIAC_BOUNDS_def)
  show ?thesis
    using h m zodiac_lookup_total [OF h] by auto
qed

text \<open>
  Claim C7, as stated: when no interval matches, the id of the last entry of the table is
  returned. In the reordered table \<open>ZODIAC_BOUNDS\<close> the last entry is Ophiuchus, and the
  fallback is still the literal \<open>"Sgr"\<close>: at longitude 400 nothing matches and the
  result is not the id of the last entry.
\<close>

theorem zodiac_fallback_last_entry_counterexample:
  "matching ZODIAC_BOUNDS 400 = []
   \<and> getZodiacConstellation_p003 400 \<noteq> zid (last ZODIAC_BOUNDS)"
  by (simp add: matching_def getZodiacConstellation_p003_def ZODIAC_BOUNDS_def)

text \<open>
  Claim C7, amended: when no interval of the table matches the longitude,
  \<open>getZodiacConstellation\<close> returns \<open>"Sgr"\<close>. That is the id of the last entry of
  \<open>ZODIAC_BOUNDARIES\<close> in \<open>src/astronomy.js\<close>; in the later revisions it is the id of the
  first entry of \<open>ZODIAC_BOUNDS\<close>, whose last entry is \<open>"Oph"\<close>.
\<close>

theorem zodiac_fallback_sgr:
  "(matching ZODIAC_BOUNDARIES l = [] \<longrightarrow>
      getZodiacConstellation l = ''Sgr'' \<and> getZodiacConstellation l = zid (last ZODIAC_BOUNDARIES))
   \<and> (matching ZODIAC_BOUNDS l = [] \<longrightarrow>
      getZodiacConstellation_p003 l = ''Sgr'' \<and> getZodiacConstellation_p003 l = zid (hd ZODIAC_BOUNDS))
   \<and> zid (last ZODIAC_BOUNDS) = ''Oph''"
proof -
  have a: "zid (last ZODIAC_BOUNDARIES) = ''Sgr''" by (simp add: ZODIAC_BOUNDARIES_def)
  have b: "zid (hd ZODIAC_BOUNDS) = ''Sgr''" by (simp add: ZODIAC_BOUNDS_def)
  have c: "zid (last ZODIAC_BOUNDS) = ''Oph''" by (simp add: ZODIAC_BOUNDS_def)
  show ?thesis
    using a b c
    by (simp add: getZodiacConstellation_def getZodiacConstellation_p003_def
        zodiac_loop_first_match)
qed

theorem zodiac_fallback_sgr_witness:
  "matching ZODIAC_BOUNDARIES (-1) = [] \<and> getZodiacConstellation (-1) = ''Sgr''
   \<and> matching ZODIAC_BOUNDS 360 = [] \<and> getZodiacConstellation_p003 360 = ''Sgr''"
proof -
  have m: "matching ZODIAC_BOUNDARIES (-1) = []" "matching ZODIAC_BOUNDS 360 = []"
    by (simp_all add: matching_def ZODIAC_BOUNDARIES_def ZODIAC_BOUNDS_def)
  show ?thesis
    using m zodiac_fallback_sgr [of "-1"] zodiac_fallback_sgr [of 360] by simp
qed


section \<open>Tropical sign: the wrap over the year boundary\<close>








section \<open>Projection: visibility cut-off, centre and bounded disk\<close>

lemma toRad_turn: "toRad (a - 360) = toRad a - 2 * pi" "toRad (a + 360) = toRad a + 2 * pi"
  by (simp_all add: toRad_def field_simps)

lemma cos_turn: "cos (toRad (a - 360)) = cos (toRad a)" "cos (toRad (a + 360)) = cos (toRad a)"
  by (simp_all add: toRad_turn cos_diff cos_add)

lemma sin_turn: "sin (toRad (a - 360)) = sin (toRad a)" "sin (toRad (a + 360)) = sin (toRad a)"
  by (simp_all add: toRad_turn sin_diff sin_add)

text \<open>The later revision computes the same value as the earlier one: the shift by one
  turn changes neither the sine nor the cosine.\<close>

lemma project_p000_eq: "project_p000 ra dec centerRA = project ra dec centerRA fov"
  by (simp add: project_p000_def project_def Let_def cos_turn sin_turn)

lemma project_cases:
  "project ra dec centerRA fov =
     (if cosDist_of ra dec centerRA < -0.01 then None
      else Some \<lparr>point_x = cos (toRad dec) * sin (toRad (ra - centerRA)) / (1 + cosDist_of ra dec centerRA),
                 point_y = - sin (toRad dec) / (1 + cosDist_of ra dec centerRA)\<rparr>)"
  by (simp add: project_def cosDist_of_def Let_def)

lemma abs_cos_sin_le_1:
  fixes a b :: real
  shows "\<bar>cos a * sin b\<bar> \<le> 1"
proof -
  have "\<bar>cos a * sin b\<bar> = \<bar>cos a\<bar> * \<bar>sin b\<bar>" by (simp add: abs_mult)
  also have "\<dots> \<le> 1 * 1"
    by (rule mult_mono) (simp_all add: abs_cos_le_one abs_sin_le_one)
  finally show ?thesis by simp
qed

lemma bounded_quotient:
  fixes n d :: real
  assumes "\<bar>n\<bar> \<le> 1" and "0.99 \<le> d"
  shows "\<bar>n / d\<bar> \<le> 100 / 99"
proof -
  have d: "0 < d" using assms by simp
  have "\<bar>n / d\<bar> = \<bar>n\<bar> / d" using d by simp
  also have "\<dots> \<le> 1 / d" using assms d by (simp add: divide_right_mono)
  also have "\<dots> \<le> 100 / 99" using assms d by (simp add: field_simps)
  finally show ?thesis .
qed

text \<open>
  Claim C2. For all inputs, \<open>project\<close> returns \<open>null\<close> exactly when
  \<open>cosDist = cos(dec) \<sqdot> cos(ra - centerRA) < -0.01\<close>. Whenever \<open>cosDist \<ge> -0.01\<close>, the
  value \<open>-0.01\<close> included, it returns the point with \<open>x = cos(dec) \<sqdot> sin(ra - centerRA) / d\<close>
  and \<open>y = - sin(dec) / d\<close>, where the divisor \<open>d = 1 + cosDist\<close> is at least 0.99, so both
  coordinates are finite: at most 100/99 in absolute value. Both revisions of \<open>project\<close>
  agree on every input.
\<close>

theorem project_visible_iff:
  "(project ra dec centerRA fov = None \<longleftrightarrow> cosDist_of ra dec centerRA < -0.01)
   \<and> (project_p000 ra dec centerRA = None \<longleftrightarrow> cosDist_of ra dec centerRA < -0.01)
   \<and> (cosDist_of ra dec centerRA \<ge> -0.01 \<longrightarrow>
        0.99 \<le> 1 + cosDist_of ra dec centerRA
        \<and> (\<exists>p. project ra dec centerRA fov = Some p \<and> project_p000 ra dec centerRA = Some p
              \<and> point_x p = cos (toRad dec) * sin (toRad (ra - centerRA)) / (1 + cosDist_of ra dec centerRA)
              \<and> point_y p = - sin (toRad dec) / (1 + cosDist_of ra dec centerRA)
              \<and> \<bar>point_x p\<bar> \<le> 100 / 99 \<and> \<bar>point_y p\<bar> \<le> 100 / 99))"
proof -
  let ?c = "cosDist_of ra dec centerRA"
  have a: "project ra dec centerRA fov = None \<longleftrightarrow> ?c < -0.01"
    by (simp add: project_cases)
  have b: "project_p000 ra dec centerRA = None \<longleftrightarrow> ?c < -0.01"
    by (simp add: project_p000_eq [where fov = fov] project_cases)
  have c: "?c \<ge> -0.01 \<longrightarrow>
        0.99 \<le> 1 + ?c
        \<and> (\<exists>p. project ra dec centerRA fov = Some p \<and> project_p000 ra dec centerRA = Some p
              \<and> point_x p = cos (toRad dec) * sin (toRad (ra - centerRA)) / (1 + ?c)
              \<and> point_y p = - sin (toRad dec) / (1 + ?c)
              \<and> \<bar>point_x p\<bar> \<le> 100 / 99 \<and> \<bar>point_y p\<bar> \<le> 100 / 99)"
  proof
    assume vis: "?c \<ge> -0.01"
    then have d: "0.99 \<le> 1 + ?c" by simp
    let ?p = "\<lparr>point_x = cos (toRad dec) * sin (toRad (ra - centerRA)) / (1 + ?c),
               point_y = - sin (toRad dec) / (1 + ?c)\<rparr>"
    have p: "project ra dec centerRA fov = Some ?p"
      using vis by (simp add: project_cases)
    have p0: "project_p000 ra dec centerRA = Some ?p"
      using p by (simp add: project_p000_eq [where fov = fov])
    have bx: "\<bar>point_x ?p\<bar> \<le> 100 / 99"
      using bounded_quotient [OF abs_cos_sin_le_1 d] by simp
    have "\<bar>- sin (toRad dec)\<bar> \<le> 1" by simp
    then have by': "\<bar>point_y ?p\<bar> \<le> 100 / 99"
      using bounded_quotient [OF _ d, of "- sin (toRad dec)"] by simp
    show "0.99 \<le> 1 + ?c
        \<and> (\<exists>p. project ra dec centerRA fov = Some p \<and> project_p000 ra dec centerRA = Some p
              \<and> point_x p = cos (toRad dec) * sin (toRad (ra - centerRA)) / (1 + ?c)
              \<and> point_y p = - sin (toRad dec) / (1 + ?c)
              \<and> \<bar>point_x p\<bar> \<le> 100 / 99 \<and> \<bar>point_y p\<bar> \<le> 100 / 99)"
      using d p p0 bx by' by (intro conjI exI [of _ ?p]) simp_all
  qed
  show ?thesis by (rule conjI [OF a conjI [OF b c]])
qed

lemma cosDist_of_examples:
  "cosDist_of 0 0 0 = 1" "cosDist_of 180 0 0 = -1" "cosDist_of 90 0 0 = 0"
  by (simp_all add: cosDist_of_def toRad_def)

theorem project_visible_iff_witness:
  "cosDist_of 90 0 0 \<ge> -0.01
   \<and> project 90 0 0 180 = Some \<lparr>point_x = 1, point_y = 0\<rparr>
   \<and> project_p000 90 0 0 = Some \<lparr>point_x = 1, point_y = 0\<rparr>
   \<and> cosDist_of 180 0 0 < -0.01 \<and> project 180 0 0 180 = None \<and> project_p000 180 0 0 = None
   \<and> cosDist_of (toDeg (arccos (-0.01))) 0 0 = -0.01
   \<and> project (toDeg (arccos (-0.01))) 0 0 180 \<noteq> None
   \<and> project_p000 (toDeg (arccos (-0.01))) 0 0 \<noteq> None"
proof -
  have v: "cosDist_of 90 0 0 \<ge> -0.01" by (simp add: cosDist_of_examples)
  have s: "sin (toRad 90) = 1" "sin (toRad 0) = 0" "cos (toRad 0) = 1"
    by (simp_all add: toRad_def)
  from project_visible_iff [of 90 0 0 180, THEN conjunct2, THEN conjunct2, rule_format, OF v]
  obtain p where p: "project 90 0 0 180 = Some p" "project_p000 90 0 0 = Some p"
    "point_x p = 1" "point_y p = 0"
    by (auto simp: s cosDist_of_examples)
  have n: "cosDist_of 180 0 0 < -0.01" by (simp add: cosDist_of_examples)
  have z: "project 180 0 0 180 = None" "project_p000 180 0 0 = None"
    using n project_visible_iff [of 180 0 0 180] by simp_all
  let ?ra = "toDeg (arccos (-0.01))"
  have "toRad (?ra - 0) = arccos (-0.01)" by (simp add: toRad_def toDeg_def)
  then have e: "cosDist_of ?ra 0 0 = -0.01"
    by (simp add: cosDist_of_def s)
  have b: "project ?ra 0 0 180 \<noteq> None" "project_p000 ?ra 0 0 \<noteq> None"
    using e project_visible_iff [of ?ra 0 0 180] by simp_all
  have q: "project 90 0 0 180 = Some \<lparr>point_x = 1, point_y = 0\<rparr>"
    "project_p000 90 0 0 = Some \<lparr>point_x = 1, point_y = 0\<rparr>"
    using p by (cases p, simp)+
  show ?thesis
    using v q n z e b by (intro conjI)
qed

text \<open>
  Claim C6. The view centre projects exactly to the origin: for every \<open>centerRA\<close>,
  \<open>project(centerRA, 0, centerRA)\<close> is the point \<open>{x: 0, y: 0}\<close>, in both revisions.
\<close>

theorem project_centre_origin:
  "project centerRA 0 centerRA fov = Some \<lparr>point_x = 0, point_y = 0\<rparr>
   \<and> project_p000 centerRA 0 centerRA = Some \<lparr>point_x = 0, point_y = 0\<rparr>"
  by (simp add: project_def project_p000_def toRad_def Let_def)






section \<open>Ranges of the remainder, the Moon phase and the solar altitude and azimuth\<close>

lemma js_rem_range:
  assumes "0 < b"
  shows "- b < js_rem a b" and "js_rem a b < b"
    and "0 \<le> a \<Longrightarrow> 0 \<le> js_rem a b" and "a < 0 \<Longrightarrow> js_rem a b \<le> 0"
proof -
  have "of_int \<lfloor>a / b\<rfloor> \<le> a / b" by linarith
  then have f1: "of_int \<lfloor>a / b\<rfloor> * b \<le> a"
    by (rule iffD1 [OF pos_le_divide_eq [OF assms]])
  have "a / b < of_int \<lfloor>a / b\<rfloor> + 1" by linarith
  then have f2: "a < (of_int \<lfloor>a / b\<rfloor> + 1) * b"
    by (rule iffD1 [OF pos_divide_less_eq [OF assms]])
  have "a / b \<le> of_int \<lceil>a / b\<rceil>" by linarith
  then have c1: "a \<le> of_int \<lceil>a / b\<rceil> * b"
    by (rule iffD1 [OF pos_divide_le_eq [OF assms]])
  have "of_int \<lceil>a / b\<rceil> - 1 < a / b" by linarith
  then have c2: "(of_int \<lceil>a / b\<rceil> - 1) * b < a"
    by (rule iffD1 [OF pos_less_divide_eq [OF assms]])
  have fl: "b * of_int \<lfloor>a / b\<rfloor> \<le> a" "a < b * of_int \<lfloor>a / b\<rfloor> + b"
    using f1 f2 by (simp_all add: algebra_simps)
  have ce: "a \<le> b * of_int \<lceil>a / b\<rceil>" "b * of_int \<lceil>a / b\<rceil> - b < a"
    using c1 c2 by (simp_all add: algebra_simps)
  show "- b < js_rem a b" "js_rem a b < b"
    using fl ce assms by (auto simp: js_rem_def)
  show "0 \<le> js_rem a b" if "0 \<le> a"
  proof -
    from that assms have "0 \<le> a / b" by simp
    then have "js_rem a b = a - b * of_int \<lfloor>a / b\<rfloor>" by (simp add: js_rem_def)
    then show ?thesis using fl by simp
  qed
  show "js_rem a b \<le> 0" if "a < 0"
  proof -
    from that assms have "a / b < 0" by (simp add: divide_neg_pos)
    then have "js_rem a b = a - b * of_int \<lceil>a / b\<rceil>" by (simp add: js_rem_def)
    then show ?thesis using ce by simp
  qed
qed

lemma mod360_range: "0 \<le> mod360 d" "mod360 d < 360"
proof -
  have "- 360 < js_rem d 360" by (rule js_rem_range) simp
  then have "0 \<le> js_rem d 360 + 360" by simp
  then show "0 \<le> mod360 d"
    unfolding mod360_def by (intro js_rem_range) simp_all
  show "mod360 d < 360"
    unfolding mod360_def by (rule js_rem_range) simp
qed

lemma phase_fraction_range:
  assumes "0 < s"
  shows "0 \<le> (if js_rem d s / s < 0 then js_rem d s / s + 1 else js_rem d s / s)"
    and "(if js_rem d s / s < 0 then js_rem d s / s + 1 else js_rem d s / s) < 1"
proof -
  have lo: "- 1 < js_rem d s / s"
    using js_rem_range(1) [OF assms, of d] assms by (simp add: field_simps)
  have hi: "js_rem d s / s < 1"
    using js_rem_range(2) [OF assms, of d] assms by (simp add: field_simps)
  show "0 \<le> (if js_rem d s / s < 0 then js_rem d s / s + 1 else js_rem d s / s)"
    using lo by (simp split: if_split)
  show "(if js_rem d s / s < 0 then js_rem d s / s + 1 else js_rem d s / s) < 1"
    using hi by (simp split: if_split)
qed

lemma getMoon_p002_phase:
  "\<exists>d. moon_phase (getMoon_p002 date) =
     (if js_rem d 29.53058867 / 29.53058867 < 0 then js_rem d 29.53058867 / 29.53058867 + 1
      else js_rem d 29.53058867 / 29.53058867)"
  unfolding getMoon_p002_def Let_def moon_state.select_convs
  by (rule exI) (rule refl)

lemma getMoon_p003_phase:
  "\<exists>d. moon_phase (getMoon_p003 Astronomy date) = mod360 d / 360"
  unfolding getMoon_p003_def Let_def
  by (cases "GeoVector_Ecliptic Astronomy ''Moon'' date") auto

text \<open>
  Claim C4. For every instant, also one before the reference new moon, where the
  elapsed days are negative, the phase returned by \<open>getMoon\<close> lies in \<open>[0, 1)\<close>. This
  holds for the mean-element revision and, whatever number the library's \<open>MoonPhase\<close>
  returns, for the revision built on the library. One day before the reference new moon
  the elapsed days are \<open>-1\<close> and the phase is \<open>1 - 1 / 29.53058867\<close>.
\<close>

theorem moon_phase_range:
  "0 \<le> moon_phase (getMoon_p002 date) \<and> moon_phase (getMoon_p002 date) < 1
   \<and> 0 \<le> moon_phase (getMoon_p003 Astronomy date) \<and> moon_phase (getMoon_p003 Astronomy date) < 1
   \<and> moon_phase (getMoon_p002 (Date_UTC 2000 0 5 18 14 0)) = 1 - 1 / 29.53058867"
proof -
  obtain d where d: "moon_phase (getMoon_p002 date) =
     (if js_rem d 29.53058867 / 29.53058867 < 0 then js_rem d 29.53058867 / 29.53058867 + 1
      else js_rem d 29.53058867 / 29.53058867)"
    using getMoon_p002_phase by blast
  have s: "(0::real) < 29.53058867" by simp
  have a: "0 \<le> moon_phase (getMoon_p002 date)" "moon_phase (getMoon_p002 date) < 1"
    unfolding d by (rule phase_fraction_range [OF s])+
  obtain e where e: "moon_phase (getMoon_p003 Astronomy date) = mod360 e / 360"
    using getMoon_p003_phase by blast
  have b: "0 \<le> moon_phase (getMoon_p003 Astronomy date)"
    "moon_phase (getMoon_p003 Astronomy date) < 1"
    using mod360_range [of e] by (simp_all add: e)
  have t: "Date_UTC 2000 0 5 18 14 0 = 947096040000" "Date_UTC 2000 0 6 18 14 0 = 947182440000"
    by code_simp+
  have c: "moon_phase (getMoon_p002 (Date_UTC 2000 0 5 18 14 0)) = 1 - 1 / 29.53058867"
    by (simp add: getMoon_p002_def Let_def getTime_def t js_rem_def)
  show ?thesis using a b c by simp
qed









section \<open>The renderer: layers of a frame and independence of what was drawn before\<close>

lemma emit_update: "emit e ops c = c\<lparr>draws := draws c @ [(e, ops)]\<rparr>"
  by (simp add: emit_def)

lemma issued_emit: "issued (emit e ops) = [(e, ops)]"
  by (simp add: issued_def emit_def blank_def)

lemma appendsD: "appends f \<Longrightarrow> f c = c\<lparr>draws := draws c @ issued f\<rparr>"
  by (simp add: appends_def)

lemma appends_emit: "appends (emit e ops)"
  by (simp add: appends_def issued_emit emit_update)

lemma appends_skip: "appends (\<lambda>c. c)" and issued_skip: "issued (\<lambda>c. c) = []"
  by (simp_all add: appends_def issued_def blank_def)

lemma appends_fold:
  assumes "\<And>x. appends (step x)"
  shows "fold step xs c = c\<lparr>draws := draws c @ concat (map (\<lambda>x. issued (step x)) xs)\<rparr>"
proof (induction xs arbitrary: c)
  case Nil
  show ?case by simp
next
  case (Cons x xs)
  have "fold step (x # xs) c = fold step xs (step x c)" by simp
  also have "\<dots> = (step x c)\<lparr>draws := draws (step x c) @ concat (map (\<lambda>x. issued (step x)) xs)\<rparr>"
    by (rule Cons.IH)
  also have "step x c = c\<lparr>draws := draws c @ issued (step x)\<rparr>"
    by (rule appendsD [OF assms])
  finally show ?case by simp
qed

lemma appends_star_step_p000: "appends (star_step_p000 cx cy scale sunRA s)"
  by (simp add: appends_def issued_def star_step_p000_def emit_def blank_def Let_def
      split: option.split)

lemma appends_star_step: "appends (star_step cx cy scale sunRA fov s)"
  by (simp add: appends_def issued_def star_step_def emit_def blank_def Let_def
      split: option.split)

lemma appends_planet_step: "appends (planet_step cx cy scale sunRA e)"
  by (simp add: appends_def issued_def planet_step_def emit_def blank_def
      split: option.split prod.split)

lemma appends_special_step: "appends (special_step cx cy scale sunRA sp key)"
  by (simp add: appends_def issued_def special_step_def emit_def blank_def
      split: option.split)

lemma appends_moon_step: "appends (moon_step cx cy scale sunRA sp)"
  by (simp add: appends_def issued_def moon_step_def emit_def blank_def
      split: option.split)

lemmas fold_steps =
  appends_fold [of "star_step_p000 cx cy scale sunRA", OF appends_star_step_p000]
  appends_fold [of "star_step cx cy scale sunRA fov", OF appends_star_step]
  appends_fold [of "planet_step cx cy scale sunRA", OF appends_planet_step]
  appends_fold [of "special_step cx cy scale sunRA sp", OF appends_special_step]
  appends_fold [of "\<lambda>c. emit e (g c)", OF appends_emit]
  for cx cy scale sunRA fov sp e g

text \<open>The state-passing renderer issues exactly the layers, in their order, after
  whatever the context held before, and leaves the canvas dimensions as they were.\<close>

lemma drawStarMap_p000_layers:
  "drawStarMap_p000 window c opts =
     c\<lparr>draws := draws c @ concat (layers_p000 window (canvas_width c) (canvas_height c) opts)\<rparr>"
  unfolding drawStarMap_p000_def layers_p000_def Let_def
  by (simp add: fold_steps appendsD [OF appends_moon_step] appendsD [OF appends_special_step]
      emit_update issued_emit split: option.split)


lemma frame_append [simp]: "frame c (c\<lparr>draws := draws c @ ds\<rparr>) = ds"
  by (simp add: frame_def)

lemma frame_p000_layers:
  "frame_p000 window c opts = concat (layers_p000 window (canvas_width c) (canvas_height c) opts)"
  by (simp add: frame_p000_def drawStarMap_p000_layers)


text \<open>Every step issues draw operations of its own kind only.\<close>

lemma issued_star_kind:
  "d \<in> set (issued (star_step_p000 cx cy scale sunRA s)) \<Longrightarrow> fst d = Star"
  by (auto simp: issued_def star_step_p000_def emit_def blank_def Let_def split: option.splits)

lemma issued_planet_kind:
  "d \<in> set (issued (planet_step cx cy scale sunRA e)) \<Longrightarrow> fst d = Planet"
  by (auto simp: issued_def planet_step_def emit_def blank_def split: option.splits prod.splits)

lemma issued_moon_kind:
  "d \<in> set (issued (moon_step cx cy scale sunRA sp)) \<Longrightarrow> fst d = Moon"
  by (auto simp: issued_def moon_step_def emit_def blank_def split: option.splits)

lemma issued_special_kind:
  "d \<in> set (issued (special_step cx cy scale sunRA sp key)) \<Longrightarrow> fst d = SpecialPoint"
  by (auto simp: issued_def special_step_def emit_def blank_def split: option.splits)

lemma ranked_lower: "ranked f k ls \<Longrightarrow> d \<in> set (concat ls) \<Longrightarrow> k \<le> f d"
proof (induction ls arbitrary: k)
  case Nil
  then show ?case by simp
next
  case (Cons l ls)
  from Cons.prems have here: "\<forall>d \<in> set l. f d = k" and rest: "ranked f (Suc k) ls"
    by simp_all
  from Cons.prems(2) have "d \<in> set l \<or> d \<in> set (concat ls)" by simp
  then show ?case
  proof
    assume "d \<in> set l"
    with here show ?thesis by simp
  next
    assume "d \<in> set (concat ls)"
    with Cons.IH [OF rest] have "Suc k \<le> f d" by simp
    then show ?thesis by simp
  qed
qed

lemma sorted_same: "\<forall>d \<in> set l. f d = k \<Longrightarrow> sorted (map f l)"
  by (induction l) auto

lemma ranked_sorted: "ranked f k ls \<Longrightarrow> sorted (map f (concat ls))"
proof (induction ls arbitrary: k)
  case Nil
  then show ?case by simp
next
  case (Cons l ls)
  from Cons.prems have here: "\<forall>d \<in> set l. f d = k" and rest: "ranked f (Suc k) ls"
    by simp_all
  have "sorted (map f l)" using here by (rule sorted_same)
  moreover have "sorted (map f (concat ls))" using rest by (rule Cons.IH)
  moreover have "\<forall>x \<in> set l. \<forall>y \<in> set (concat ls). f x \<le> f y"
    using here ranked_lower [OF rest] by fastforce
  ultimately show ?case by (simp add: sorted_append)
qed

lemma layers_p000_ranked:
  "ranked (\<lambda>d. layer (fst d)) 0 (layers_p000 window width height opts)"
  unfolding layers_p000_def Let_def
  by (auto simp: numeral_eq_Suc split: option.splits
      dest: issued_star_kind issued_planet_kind issued_moon_kind issued_special_kind)

lemma layer_inj: "layer a = layer b \<Longrightarrow> a = b"
  by (cases a; cases b) simp_all

lemma sorted_precedes:
  "sorted (map (\<lambda>d. layer (fst d)) ds) \<Longrightarrow> layer a < layer b \<Longrightarrow> precedes a b ds"
proof (induction ds)
  case Nil
  show ?case by simp
next
  case (Cons d ds)
  from Cons.prems(1) have tl: "sorted (map (\<lambda>d. layer (fst d)) ds)"
    and le: "\<forall>y \<in> set ds. layer (fst d) \<le> layer (fst y)"
    by simp_all
  have "a \<notin> fst ` set ds" if "fst d = b"
  proof
    assume "a \<in> fst ` set ds"
    then obtain y where "y \<in> set ds" "fst y = a" by auto
    with le that have "layer b \<le> layer a" by auto
    with Cons.prems(2) show False by simp
  qed
  with Cons.IH [OF tl Cons.prems(2)] show ?case by simp
qed

lemma sun_at_most_once:
  "length (filter (\<lambda>d. fst d = Sun) (concat (layers_p000 window width height opts))) \<le> 1"
proof -
  have "filter (\<lambda>d. fst d = Sun) (concat (map (\<lambda>x. issued (f x)) xs)) = []"
    if "\<And>x d. d \<in> set (issued (f x)) \<Longrightarrow> fst d \<noteq> Sun" for f :: "'a \<Rightarrow> ctx \<Rightarrow> ctx" and xs
    using that by (induction xs) (auto simp: filter_empty_conv)
  note none = this
  have s: "filter (\<lambda>d. fst d = Sun) (concat (map (\<lambda>x. issued (star_step_p000 cx cy sc ra x)) xs)) = []"
    for cx cy sc ra xs
    by (rule none) (auto dest: issued_star_kind)
  have p: "filter (\<lambda>d. fst d = Sun) (concat (map (\<lambda>x. issued (planet_step cx cy sc ra x)) xs)) = []"
    for cx cy sc ra xs
    by (rule none) (auto dest: issued_planet_kind)
  have m: "filter (\<lambda>d. fst d = Sun) (issued (moon_step cx cy sc ra sp)) = []"
    for cx cy sc ra sp
    by (auto simp: filter_empty_conv dest: issued_moon_kind)
  have x: "filter (\<lambda>d. fst d = Sun) (issued (special_step cx cy sc ra sp k)) = []"
    for cx cy sc ra sp k
    by (auto simp: filter_empty_conv dest: issued_special_kind)
  show ?thesis
    unfolding layers_p000_def Let_def
    by (simp add: s p m x filter_map comp_def split: option.split)
qed

lemma project_p000_centre:
  "project_p000 centerRA 0 centerRA = Some \<lparr>point_x = 0, point_y = 0\<rparr>"
  by (simp add: project_p000_def toRad_def Let_def)

lemma sample_frame_kinds:
  "map fst (frame_p000 sample_window sample_ctx sample_opts)
   = [ClearCanvas, ShadowReset, Moon, SpecialPoint, Sun]"
  by (simp add: frame_p000_layers layers_p000_def sample_opts_def sample_ctx_def
      sample_window_def issued_def moon_step_def special_step_def specials_at_def emit_def
      blank_def project_p000_centre SPECIALS_def)

text \<open>
  Claim C5, as stated: every special-point draw precedes the Moon draw. On the sample
  input the frame is the cleared canvas, the shadow reset, the Moon, Lilith and the Sun,
  in this order: the draw of the special point follows the draw of the Moon.
\<close>

theorem specials_before_moon_counterexample:
  "map fst (frame_p000 sample_window sample_ctx sample_opts)
     = [ClearCanvas, ShadowReset, Moon, SpecialPoint, Sun]
   \<and> \<not> precedes SpecialPoint Moon (frame_p000 sample_window sample_ctx sample_opts)"
proof -
  obtain d1 d2 d3 d4 d5 where f: "frame_p000 sample_window sample_ctx sample_opts = [d1, d2, d3, d4, d5]"
    and k: "fst d3 = Moon" "fst d4 = SpecialPoint"
    using sample_frame_kinds by (auto simp: map_eq_Cons_conv)
  show ?thesis
    using sample_frame_kinds by (simp add: f k)
qed

text \<open>
  Claim C5, amended. One call of \<open>drawStarMap\<close> issues exactly its layers in the fixed
  back-to-front order: the cleared canvas, the horizon (when an altitude is supplied),
  the constellation lines, the background stars, the planets, the Moon, the special
  points, and the Sun last. In the sequence of emitted draw operations every Moon draw
  precedes every special-point draw, every other draw precedes the Sun draw, and the Sun
  is drawn at most once.
\<close>

theorem drawStarMap_layer_order:
  "frame_p000 window c opts = concat (layers_p000 window (canvas_width c) (canvas_height c) opts)
   \<and> sorted (map (\<lambda>d. layer (fst d)) (frame_p000 window c opts))
   \<and> precedes Moon SpecialPoint (frame_p000 window c opts)
   \<and> (\<forall>e. e \<noteq> Sun \<longrightarrow> precedes e Sun (frame_p000 window c opts))
   \<and> length (filter (\<lambda>d. fst d = Sun) (frame_p000 window c opts)) \<le> 1"
proof -
  let ?f = "frame_p000 window c opts"
  have l: "?f = concat (layers_p000 window (canvas_width c) (canvas_height c) opts)"
    by (rule frame_p000_layers)
  have s: "sorted (map (\<lambda>d. layer (fst d)) ?f)"
    unfolding l by (rule ranked_sorted [OF layers_p000_ranked])
  have m: "precedes Moon SpecialPoint ?f"
    by (rule sorted_precedes [OF s]) simp
  have u: "\<forall>e. e \<noteq> Sun \<longrightarrow> precedes e Sun ?f"
  proof (intro allI impI)
    fix e :: emitter
    assume "e \<noteq> Sun"
    then have "layer e < layer Sun" by (cases e) simp_all
    then show "precedes e Sun ?f" by (rule sorted_precedes [OF s])
  qed
  have o: "length (filter (\<lambda>d. fst d = Sun) ?f) \<le> 1"
    unfolding l by (rule sun_at_most_once)
  show ?thesis
    by (rule conjI [OF l conjI [OF s conjI [OF m conjI [OF u o]]]])
qed

theorem drawStarMap_layer_order_witness:
  "Moon \<noteq> Sun
   \<and> map fst (frame_p000 sample_window sample_ctx sample_opts)
       = [ClearCanvas, ShadowReset, Moon, SpecialPoint, Sun]
   \<and> precedes Moon SpecialPoint (frame_p000 sample_window sample_ctx sample_opts)
   \<and> precedes Moon Sun (frame_p000 sample_window sample_ctx sample_opts)"
proof -
  note t = drawStarMap_layer_order [of sample_window sample_ctx sample_opts]
  have n: "Moon \<noteq> Sun" by simp
  have a: "precedes Moon SpecialPoint (frame_p000 sample_window sample_ctx sample_opts)"
    by (rule t [THEN conjunct2, THEN conjunct2, THEN conjunct1])
  have b: "precedes Moon Sun (frame_p000 sample_window sample_ctx sample_opts)"
    using t [THEN conjunct2, THEN conjunct2, THEN conjunct2, THEN conjunct1] n by blast
  show ?thesis
    by (rule conjI [OF n conjI [OF sample_frame_kinds conjI [OF a b]]])
qed



end
